theory Spec2Isabelle
  imports Main "HOL-Library.Word"
begin

unbundle bit_operations_syntax

section \<open>Data model of region.cpp\<close>

text \<open>
  Coordinates are C++ \<open>int\<close>s. They are modelled as unbounded integers: the image
  coordinates the code works on are far from the 32-bit limits, and signed overflow is
  undefined in C++ anyway.

  \<open>RPoint\<close> is declared in a header that is not part of the sources under study. The
  code constructs it as \<open>RPoint(x, y)\<close>, reads it with \<open>x()\<close> and \<open>y()\<close>, compares it
  with \<open>==\<close> and adds two points with \<open>+\<close>.
\<close>

datatype RPoint = RPoint (rx: int) (ry: int)

text \<open>
  Modelled from the spec: \<open>operator+\<close> of RPoint, whose definition is in the missing
  header. The spec says that points support component-wise addition.
\<close>

definition RPoint_plus :: "RPoint \<Rightarrow> RPoint \<Rightarrow> RPoint" where
  "RPoint_plus p q = RPoint (rx p + rx q) (ry p + ry q)"

type_synonym uchar = "8 word"

text \<open>
  What the constructor sees of a \<open>cv::Mat\<close>: the size \<open>s\<close> and the offset \<open>p\<close> that
  \<open>locateROI\<close> reports, the row stride in bytes and the bytes reachable from the data
  pointer. An access outside these bytes is an error of the model (it is undefined
  behaviour in the program).
\<close>

record Mat =
  s_width :: int
  s_height :: int
  p_x :: int
  p_y :: int
  step :: nat
  data :: "uchar list"

datatype error =
    MatOutOfBounds
  | EmptySequence
  | BadAllocation
  | XmapOutOfBounds int

text \<open>\<open>m.ptr<uchar>(i)[j]\<close>: the byte \<open>j\<close> of row \<open>i\<close>.\<close>

definition ptr_uchar :: "Mat \<Rightarrow> int \<Rightarrow> int \<Rightarrow> error + uchar" where
  "ptr_uchar m i j =
     (let a = i * int (step m) + j
      in if 0 \<le> a \<and> a < int (length (data m)) then Inr (data m ! nat a)
         else Inl MatOutOfBounds)"

text \<open>
  \<open>m.at<int>(i0, i1)\<close>: OpenCV computes the address \<open>data + step * i0 + sizeof(int) * i1\<close>
  and reads an \<open>int\<close> there, whatever the element type of the matrix is. Four bytes are
  read; the value is assembled least significant byte first.
\<close>

definition at_int :: "Mat \<Rightarrow> int \<Rightarrow> int \<Rightarrow> error + 32 word" where
  "at_int m i0 i1 =
     (let a = i0 * int (step m) + 4 * i1
      in if 0 \<le> a \<and> a + 3 < int (length (data m))
         then Inr (ucast (data m ! nat a)
                OR push_bit 8 (ucast (data m ! nat (a + 1)))
                OR push_bit 16 (ucast (data m ! nat (a + 2)))
                OR push_bit 24 (ucast (data m ! nat (a + 3))))
         else Inl MatOutOfBounds)"

text \<open>
  The region: \<open>points\<close> is a \<open>QVector<RPoint>\<close>, \<open>ycoords\<close> maps a row to an index of
  \<open>points\<close> (\<open>contains\<close>, \<open>value\<close>, \<open>insert\<close>, \<open>clear\<close> are the only operations used;
  \<open>insert\<close> replaces the value of a key that is present).
\<close>

record Region =
  bound_min :: RPoint
  bound_max :: RPoint
  points :: "RPoint list"
  ycoords :: "int \<rightharpoonup> nat"

section \<open>buildYMap\<close>

text \<open>
  The loop of \<open>buildYMap\<close> walks \<open>points\<close> from index 0; the model walks the list and
  carries the index \<open>i\<close> and the variable \<open>current\<close>.
\<close>

fun buildYMap_loop :: "RPoint list \<Rightarrow> nat \<Rightarrow> int \<Rightarrow> (int \<rightharpoonup> nat) \<Rightarrow> (int \<rightharpoonup> nat)" where
  "buildYMap_loop [] i current yc = yc"
| "buildYMap_loop (q # qs) i current yc =
     (if current \<noteq> ry q then buildYMap_loop qs (i + 1) (ry q) (yc(ry q \<mapsto> i))
      else buildYMap_loop qs (i + 1) current yc)"

definition buildYMap :: "RPoint list \<Rightarrow> (int \<rightharpoonup> nat)" where
  "buildYMap pts =
     (case pts of
        [] \<Rightarrow> Map.empty
      | q # _ \<Rightarrow> buildYMap_loop pts 0 (ry q) (Map.empty(ry q \<mapsto> 0)))"

section \<open>The constructor Region(const Mat &, bool)\<close>

subsection \<open>Mask mode\<close>

text \<open>
  The condition of the inner loop for the cell in row \<open>i\<close>, column \<open>j\<close>, with the
  short-circuit evaluation of \<open>&&\<close> and \<open>||\<close>: a later operand is read only when the
  earlier ones have not decided the result.
\<close>

definition edge_point :: "Mat \<Rightarrow> int \<Rightarrow> int \<Rightarrow> error + bool" where
  "edge_point m i j =
     (case ptr_uchar m i j of
        Inl e \<Rightarrow> Inl e
      | Inr c \<Rightarrow>
          if c = 0 then Inr False
          else if i = 0 \<or> j = 0 \<or> i = s_height m - 1 \<or> j = s_width m - 1 then Inr True
          else
            (case ptr_uchar m i (j - 1) of
               Inl e \<Rightarrow> Inl e
             | Inr l \<Rightarrow>
                 if l = 0 then Inr True
                 else
                   (case ptr_uchar m i (j + 1) of
                      Inl e \<Rightarrow> Inl e
                    | Inr r \<Rightarrow>
                        if r = 0 then Inr True
                        else
                          (case at_int m j (i - 1) of
                             Inl e \<Rightarrow> Inl e
                           | Inr u \<Rightarrow>
                               if u = 0 then Inr True
                               else
                                 (case at_int m j (i + 1) of
                                    Inl e \<Rightarrow> Inl e
                                  | Inr d \<Rightarrow> Inr (d = 0))))))"

function mask_cols :: "Mat \<Rightarrow> int \<Rightarrow> int \<Rightarrow> RPoint list \<Rightarrow> error + RPoint list" where
  "mask_cols m i j pts =
     (if j < s_width m then
        (case edge_point m i j of
           Inl e \<Rightarrow> Inl e
         | Inr b \<Rightarrow>
             mask_cols m i (j + 1)
               (if b then pts @ [RPoint (j + p_x m) (i + p_y m)] else pts))
      else Inr pts)"
  by pat_completeness auto
termination
  by (relation "measure (\<lambda>(m, i, j, pts). nat (s_width m - j))") auto

declare mask_cols.simps [simp del]

function mask_rows :: "Mat \<Rightarrow> int \<Rightarrow> RPoint list \<Rightarrow> error + RPoint list" where
  "mask_rows m i pts =
     (if i < s_height m then
        (case mask_cols m i 0 pts of
           Inl e \<Rightarrow> Inl e
         | Inr pts' \<Rightarrow> mask_rows m (i + 1) pts')
      else Inr pts)"
  by pat_completeness auto
termination
  by (relation "measure (\<lambda>(m, i, pts). nat (s_height m - i))") auto

declare mask_rows.simps [simp del]

subsection \<open>Rectangle mode\<close>

text \<open>The three loops of the rectangle branch, each appending to \<open>points\<close>.\<close>

function rect_first :: "Mat \<Rightarrow> int \<Rightarrow> RPoint list \<Rightarrow> RPoint list" where
  "rect_first m i pts =
     (if i < s_width m then rect_first m (i + 1) (pts @ [RPoint (p_x m + i) (p_y m)])
      else pts)"
  by pat_completeness auto
termination
  by (relation "measure (\<lambda>(m, i, pts). nat (s_width m - i))") auto

declare rect_first.simps [simp del]

function rect_middle :: "Mat \<Rightarrow> int \<Rightarrow> RPoint list \<Rightarrow> RPoint list" where
  "rect_middle m i pts =
     (if i < s_height m - 1 then
        rect_middle m (i + 1)
          (pts @ [RPoint (p_x m) (p_y m + i), RPoint (p_x m + s_width m - 1) (p_y m + i)])
      else pts)"
  by pat_completeness auto
termination
  by (relation "measure (\<lambda>(m, i, pts). nat (s_height m - 1 - i))") auto

declare rect_middle.simps [simp del]

function rect_last :: "Mat \<Rightarrow> int \<Rightarrow> RPoint list \<Rightarrow> RPoint list" where
  "rect_last m i pts =
     (if i < s_width m then
        rect_last m (i + 1) (pts @ [RPoint (p_x m + i) (p_y m + s_height m - 1)])
      else pts)"
  by pat_completeness auto
termination
  by (relation "measure (\<lambda>(m, i, pts). nat (s_width m - i))") auto

declare rect_last.simps [simp del]

subsection \<open>The constructor\<close>

text \<open>
  In mask mode \<open>points.first()\<close> and \<open>points.last()\<close> are read whatever was collected;
  on an empty vector this is the error \<open>EmptySequence\<close>.
\<close>

definition Region_Mat :: "Mat \<Rightarrow> bool \<Rightarrow> error + Region" where
  "Region_Mat m mask_flag =
     (if mask_flag then
        (case mask_rows m 0 [] of
           Inl e \<Rightarrow> Inl e
         | Inr pts \<Rightarrow>
             if pts = [] then Inl EmptySequence
             else Inr \<lparr>bound_min = hd pts, bound_max = last pts,
                       points = pts, ycoords = buildYMap pts\<rparr>)
      else
        (let pts = rect_last m 0 (rect_middle m 1 (rect_first m 0 []))
         in Inr \<lparr>bound_min = RPoint (p_x m) (p_y m),
                  bound_max = RPoint (p_x m + s_width m) (p_y m + s_height m),
                  points = pts, ycoords = buildYMap pts\<rparr>))"

section \<open>Queries\<close>

subsection \<open>inBoundary\<close>

text \<open>
  The loop of \<open>inBoundary\<close>, from the index \<open>i\<close>. Its condition compares the index
  \<open>i\<close> itself with \<open>p.y()\<close>, as the source does.
\<close>

function inBoundary_loop :: "RPoint list \<Rightarrow> RPoint \<Rightarrow> nat \<Rightarrow> bool" where
  "inBoundary_loop pts p i =
     (if i < length pts \<and> int i = ry p then
        (if pts ! i = p then True else inBoundary_loop pts p (i + 1))
      else False)"
  by pat_completeness auto
termination
  by (relation "measure (\<lambda>(pts, p, i). length pts - i)") auto

declare inBoundary_loop.simps [simp del]

definition inBoundary :: "Region \<Rightarrow> RPoint \<Rightarrow> bool" where
  "inBoundary r p =
     (case ycoords r (ry p) of
        None \<Rightarrow> False
      | Some i \<Rightarrow> inBoundary_loop (points r) p i)"

subsection \<open>interior\<close>

text \<open>
  The loop of \<open>interior\<close> with its four flags as loop state. The loop condition is
  tested on entry to each round: the loop goes on while all four flags are false. A
  round probes the four directions at distance \<open>i\<close>, then returns false when
  \<open>outside_box\<close> holds, the source's test for having left the bounding box.
  \<open>reach\<close> bounds the rounds: beyond it \<open>outside_box\<close> holds.
\<close>

definition outside_box :: "Region \<Rightarrow> RPoint \<Rightarrow> int \<Rightarrow> bool" where
  "outside_box r p i \<longleftrightarrow>
     rx p - i < rx (bound_min r) \<and> rx p + i > rx (bound_max r) \<and>
     ry p - i < ry (bound_min r) \<and> ry p + i > ry (bound_max r)"

definition reach :: "Region \<Rightarrow> RPoint \<Rightarrow> int" where
  "reach r p =
     max (max (rx p - rx (bound_min r)) (rx (bound_max r) - rx p))
         (max (ry p - ry (bound_min r)) (ry (bound_max r) - ry p))"

function interior_loop ::
  "Region \<Rightarrow> RPoint \<Rightarrow> int \<Rightarrow> bool \<Rightarrow> bool \<Rightarrow> bool \<Rightarrow> bool \<Rightarrow> bool" where
  "interior_loop r p i x_plus x_minus y_plus y_minus =
     (if \<not> x_plus \<and> \<not> x_minus \<and> \<not> y_plus \<and> \<not> y_minus then
        (let x_plus' = (if \<not> x_plus \<and> inBoundary r (RPoint_plus p (RPoint i 0))
                        then True else x_plus);
             x_minus' = (if \<not> x_minus \<and> inBoundary r (RPoint_plus p (RPoint (- i) 0))
                         then True else x_minus);
             y_plus' = (if \<not> y_plus \<and> inBoundary r (RPoint_plus p (RPoint 0 i))
                        then True else y_plus);
             y_minus' = (if \<not> y_minus \<and> inBoundary r (RPoint_plus p (RPoint 0 (- i)))
                         then True else y_minus)
         in if outside_box r p i then False
            else interior_loop r p (i + 1) x_plus' x_minus' y_plus' y_minus')
      else True)"
  by pat_completeness auto
termination
  by (relation "measure (\<lambda>(r, p, i, _). nat (reach r p + 1 - i))")
     (auto simp: outside_box_def reach_def)

declare interior_loop.simps [simp del]

definition interior :: "Region \<Rightarrow> RPoint \<Rightarrow> bool" where
  "interior r p = interior_loop r p 1 False False False False"

subsection \<open>contains\<close>

text \<open>
  \<open>operator<\<close> of RPoint is declared in the missing header; \<open>contains\<close> takes it as
  the parameter \<open>lt\<close>.
\<close>

definition contains :: "(RPoint \<Rightarrow> RPoint \<Rightarrow> bool) \<Rightarrow> Region \<Rightarrow> RPoint \<Rightarrow> bool" where
  "contains lt r p =
     (if lt p (bound_min r) \<or> lt (bound_max r) p then False
      else inBoundary r p \<or> interior r p)"

subsection \<open>adjacentPoint and adjacentTo\<close>

text \<open>
  \<open>adjacentPoint\<close> as the source defines it: one parameter, and the four probes go
  to \<open>inBoundary\<close> of the receiver. The call in \<open>adjacentTo\<close> passes \<open>other\<close> as a
  second argument, for which the definition has no parameter.
\<close>

definition adjacentPoint :: "Region \<Rightarrow> RPoint \<Rightarrow> bool" where
  "adjacentPoint r p \<longleftrightarrow>
     inBoundary r (RPoint_plus p (RPoint (- 1) 0)) \<or>
     inBoundary r (RPoint_plus p (RPoint 1 0)) \<or>
     inBoundary r (RPoint_plus p (RPoint 0 (- 1))) \<or>
     inBoundary r (RPoint_plus p (RPoint 0 1))"

fun adjacentTo_loop :: "Region \<Rightarrow> Region \<Rightarrow> RPoint list \<Rightarrow> bool" where
  "adjacentTo_loop r other [] = False"
| "adjacentTo_loop r other (q # qs) =
     (if adjacentPoint r q then True else adjacentTo_loop r other qs)"

definition adjacentTo :: "Region \<Rightarrow> Region \<Rightarrow> bool" where
  "adjacentTo r other =
     (if (rx (bound_max other) < rx (bound_min r) \<and> ry (bound_max other) < ry (bound_min r)) \<or>
         (rx (bound_max r) < rx (bound_min other) \<and> ry (bound_max r) < ry (bound_min other))
      then False
      else adjacentTo_loop r other (points r))"

section \<open>toMask\<close>

text \<open>
  \<open>m.at<uchar>(i0, i1) = v\<close>: the byte at \<open>data + step * i0 + i1\<close> is written.
\<close>

definition at_uchar_set :: "Mat \<Rightarrow> int \<Rightarrow> int \<Rightarrow> uchar \<Rightarrow> error + Mat" where
  "at_uchar_set m i0 i1 v =
     (let a = i0 * int (step m) + i1
      in if 0 \<le> a \<and> a < int (length (data m)) then Inr (m\<lparr>data := (data m)[nat a := v]\<rparr>)
         else Inl MatOutOfBounds)"

text \<open>
  \<open>Mat::zeros(rows, cols, CV_8UC1)\<close>: a matrix of its own (no parent, offset 0), one
  byte per cell, rows stored one after the other. A negative size is refused.
\<close>

definition Mat_zeros :: "int \<Rightarrow> int \<Rightarrow> error + Mat" where
  "Mat_zeros rows cols =
     (if rows < 0 \<or> cols < 0 then Inl BadAllocation
      else Inr \<lparr>s_width = cols, s_height = rows, p_x = 0, p_y = 0,
                step = nat cols, data = replicate (nat (rows * cols)) 0\<rparr>)"

text \<open>
  The body of the inner loop of \<open>toMask\<close> for row \<open>i\<close> and column \<open>j\<close>. The state is
  the array \<open>xmap\<close> and the matrix \<open>m\<close>. Every path reads \<open>xmap[j]\<close> first, with the
  absolute column \<open>j\<close> as index.
\<close>

definition toMask_cell ::
  "(RPoint \<Rightarrow> RPoint \<Rightarrow> bool) \<Rightarrow> Region \<Rightarrow> int \<Rightarrow> int \<Rightarrow> uchar list \<times> Mat
     \<Rightarrow> error + uchar list \<times> Mat" where
  "toMask_cell lt r i j st =
     (case st of (xmap, m) \<Rightarrow>
        if \<not> (0 \<le> j \<and> j < int (length xmap)) then Inl (XmapOutOfBounds j)
        else
          (let p = RPoint j i;
               c = xmap ! nat j;
               c' = (if inBoundary r p then c OR 1
                     else (if c AND 1 \<noteq> 0 \<and> contains lt r p then c OR 2 else c) AND NOT 1);
               xmap' = xmap[nat j := c']
           in if c' AND 3 \<noteq> 0 then
                (case at_uchar_set m j i 255 of
                   Inl e \<Rightarrow> Inl e
                 | Inr m' \<Rightarrow> Inr (xmap', m'))
              else Inr (xmap', m)))"

function toMask_cols ::
  "(RPoint \<Rightarrow> RPoint \<Rightarrow> bool) \<Rightarrow> Region \<Rightarrow> int \<Rightarrow> int \<Rightarrow> uchar list \<times> Mat
     \<Rightarrow> error + uchar list \<times> Mat" where
  "toMask_cols lt r i j st =
     (if j \<le> rx (bound_max r) then
        (case toMask_cell lt r i j st of
           Inl e \<Rightarrow> Inl e
         | Inr st' \<Rightarrow> toMask_cols lt r i (j + 1) st')
      else Inr st)"
  by pat_completeness auto
termination
  by (relation "measure (\<lambda>(lt, r, i, j, st). nat (rx (bound_max r) + 1 - j))") auto

declare toMask_cols.simps [simp del]

function toMask_rows ::
  "(RPoint \<Rightarrow> RPoint \<Rightarrow> bool) \<Rightarrow> Region \<Rightarrow> int \<Rightarrow> uchar list \<times> Mat
     \<Rightarrow> error + uchar list \<times> Mat" where
  "toMask_rows lt r i st =
     (if i \<le> ry (bound_max r) then
        (case toMask_cols lt r i (rx (bound_min r)) st of
           Inl e \<Rightarrow> Inl e
         | Inr st' \<Rightarrow> toMask_rows lt r (i + 1) st')
      else Inr st)"
  by pat_completeness auto
termination
  by (relation "measure (\<lambda>(lt, r, i, st). nat (ry (bound_max r) + 1 - i))") auto

declare toMask_rows.simps [simp del]

text \<open>
  \<open>new char[n]\<close> leaves the array uninitialised: its first contents are the parameter
  \<open>xmap0\<close>, one value per index. A negative length is refused.
\<close>

definition toMask :: "(RPoint \<Rightarrow> RPoint \<Rightarrow> bool) \<Rightarrow> (nat \<Rightarrow> uchar) \<Rightarrow> Region \<Rightarrow> error + Mat" where
  "toMask lt xmap0 r =
     (case Mat_zeros (ry (bound_max r) - 1) (rx (bound_max r) - 1) of
        Inl e \<Rightarrow> Inl e
      | Inr m \<Rightarrow>
          (let n = rx (bound_max r) - rx (bound_min r)
           in if n < 0 then Inl BadAllocation
              else
                (case toMask_rows lt r (ry (bound_min r)) (map xmap0 [0..<nat n], m) of
                   Inl e \<Rightarrow> Inl e
                 | Inr (xmap, m') \<Rightarrow> Inr m')))"

section \<open>Specification-side definitions and example inputs\<close>

text \<open>
  The perimeter of a \<open>w \<times> h\<close> rectangle at offset \<open>(ox, oy)\<close> in the order the
  specification describes: the top row from left to right, then for each inner row the
  left and the right pixel, then the bottom row from left to right.
\<close>

definition rect_points :: "int \<Rightarrow> int \<Rightarrow> int \<Rightarrow> int \<Rightarrow> RPoint list" where
  "rect_points w h ox oy =
     map (\<lambda>k. RPoint (ox + k) oy) [0..w - 1] @
     concat (map (\<lambda>k. [RPoint ox (oy + k), RPoint (ox + w - 1) (oy + k)]) [1..h - 2]) @
     map (\<lambda>k. RPoint (ox + k) (oy + h - 1)) [0..w - 1]"

text \<open>
  Three candidates for the order \<open>lt\<close> of the points, which \<open>contains\<close> takes as a
  parameter: rows first and then columns (the order the specification names), columns
  first and then rows, and the order in which a point is below another when both of
  its coordinates are.
\<close>

definition row_major :: "RPoint \<Rightarrow> RPoint \<Rightarrow> bool" where
  "row_major p q \<longleftrightarrow> ry p < ry q \<or> (ry p = ry q \<and> rx p < rx q)"

definition col_major :: "RPoint \<Rightarrow> RPoint \<Rightarrow> bool" where
  "col_major p q \<longleftrightarrow> rx p < rx q \<or> (rx p = rx q \<and> ry p < ry q)"

definition both_less :: "RPoint \<Rightarrow> RPoint \<Rightarrow> bool" where
  "both_less p q \<longleftrightarrow> rx p < rx q \<and> ry p < ry q"

text \<open>
  A matrix of 5 columns and 4 rows for which \<open>locateROI\<close> reports the offset
  \<open>(ox, oy)\<close>, and the points the rectangle branch stores for it.
\<close>

definition rect_5x4_at :: "int \<Rightarrow> int \<Rightarrow> Mat" where
  "rect_5x4_at ox oy = \<lparr>s_width = 5, s_height = 4, p_x = ox, p_y = oy, step = 5, data = replicate 20 0\<rparr>"

definition pts_5x4 :: "int \<Rightarrow> int \<Rightarrow> RPoint list" where
  "pts_5x4 ox oy = [RPoint ox oy, RPoint (ox + 1) oy, RPoint (ox + 2) oy, RPoint (ox + 3) oy, RPoint (ox + 4) oy,
                    RPoint ox (oy + 1), RPoint (ox + 4) (oy + 1),
                    RPoint ox (oy + 2), RPoint (ox + 4) (oy + 2),
                    RPoint ox (oy + 3), RPoint (ox + 1) (oy + 3), RPoint (ox + 2) (oy + 3), RPoint (ox + 3) (oy + 3), RPoint (ox + 4) (oy + 3)]"

text \<open>
  A mask of 3 rows and 12 columns, one byte per cell, rows stored one after the other.
  Row 1 has the cells 0, 1, 2 and 9 set; rows 0 and 2 are unset.
\<close>

definition mask_3x12 :: Mat where
  "mask_3x12 = \<lparr>s_width = 12, s_height = 3, p_x = 0, p_y = 0, step = 12,
     data = [0, 0, 0, 0, 0, 0, 0, 0, 0, 0, 0, 0,
             255, 255, 255, 0, 0, 0, 0, 0, 0, 255, 0, 0,
             0, 0, 0, 0, 0, 0, 0, 0, 0, 0, 0, 0]\<rparr>"

text \<open>A mask of 2 rows and 2 columns whose four cells hold \<open>v\<close>.\<close>

definition mask_2x2 :: "uchar \<Rightarrow> Mat" where
  "mask_2x2 v = \<lparr>s_width = 2, s_height = 2, p_x = 0, p_y = 0, step = 2, data = [v, v, v, v]\<rparr>"

text \<open>
  A mask none of whose cells is set: the rows fit the stride, the \<open>s_height\<close> rows lie
  within the bytes of the matrix, and every byte is 0.
\<close>

definition all_unset :: "Mat \<Rightarrow> bool" where
  "all_unset m \<longleftrightarrow>
     s_width m \<le> int (step m) \<and> s_height m * int (step m) \<le> int (length (data m)) \<and>
     list_all (\<lambda>c. c = 0) (data m)"

section \<open>Rectangle construction\<close>

text \<open>Each loop of the rectangle branch appends a segment of the perimeter.\<close>

lemma rect_first_eq:
  "rect_first m i pts = pts @ map (\<lambda>k. RPoint (p_x m + k) (p_y m)) [i..s_width m - 1]"
proof (induction m i pts rule: rect_first.induct)
  case (1 m i pts)
  show ?case
  proof (cases "i < s_width m")
    case True
    then have "[i..s_width m - 1] = i # [i + 1..s_width m - 1]"
      by (simp add: upto_rec1)
    with True 1 show ?thesis by (simp add: rect_first.simps [of m i] rect_middle.simps [of m i] rect_last.simps [of m i])
  next
    case False
    then show ?thesis by (simp add: rect_first.simps [of m i])
  qed
qed

lemma rect_middle_eq:
  "rect_middle m i pts =
     pts @ concat (map (\<lambda>k. [RPoint (p_x m) (p_y m + k),
                                RPoint (p_x m + s_width m - 1) (p_y m + k)])
                       [i..s_height m - 2])"
proof (induction m i pts rule: rect_middle.induct)
  case (1 m i pts)
  show ?case
  proof (cases "i < s_height m - 1")
    case True
    then have "[i..s_height m - 2] = i # [i + 1..s_height m - 2]"
      by (simp add: upto_rec1)
    with True 1 show ?thesis by (simp add: rect_first.simps [of m i] rect_middle.simps [of m i] rect_last.simps [of m i])
  next
    case False
    then show ?thesis by (simp add: rect_middle.simps [of m i])
  qed
qed

lemma rect_last_eq:
  "rect_last m i pts =
     pts @ map (\<lambda>k. RPoint (p_x m + k) (p_y m + s_height m - 1)) [i..s_width m - 1]"
proof (induction m i pts rule: rect_last.induct)
  case (1 m i pts)
  show ?case
  proof (cases "i < s_width m")
    case True
    then have "[i..s_width m - 1] = i # [i + 1..s_width m - 1]"
      by (simp add: upto_rec1)
    with True 1 show ?thesis by (simp add: rect_first.simps [of m i] rect_middle.simps [of m i] rect_last.simps [of m i])
  next
    case False
    then show ?thesis by (simp add: rect_last.simps [of m i])
  qed
qed

lemma length_pairs: "length (concat (map (\<lambda>k. [f k, g k]) ks)) = 2 * length ks"
  by (induction ks) auto

lemma sorted_pairs:
  "sorted (concat (map (\<lambda>k. [c + k, c + k]) [i..j])) \<and>
   (\<forall>v \<in> set (concat (map (\<lambda>k. [c + k, c + k]) [i..j])). c + i \<le> v \<and> v \<le> c + j)"
proof (induction i j rule: upto.induct)
  case (1 i j)
  show ?case
  proof (cases "i \<le> j")
    case True
    then have "[i..j] = i # [i + 1..j]" by (simp add: upto_rec1)
    with True 1 show ?thesis by auto
  next
    case False
    then show ?thesis by simp
  qed
qed

lemma ry_pairs:
  "map ry (concat (map (\<lambda>k. [RPoint a (c + k), RPoint b (c + k)]) ks)) =
   concat (map (\<lambda>k. [c + k, c + k]) ks)"
  by (induction ks) auto

lemma rect_points_sorted:
  assumes "2 \<le> h"
  shows "sorted (map ry (rect_points w h ox oy))"
proof -
  have "sorted (concat (map (\<lambda>k. [oy + k, oy + k]) [1..h - 2]))"
    and "\<forall>v \<in> set (concat (map (\<lambda>k. [oy + k, oy + k]) [1..h - 2])). oy + 1 \<le> v \<and> v \<le> oy + (h - 2)"
    using sorted_pairs [of oy 1 "h - 2"] by blast+
  moreover have "sorted (map (\<lambda>k. oy) [0..w - 1])" for oy :: int
    by (simp add: sorted_map)
  ultimately show ?thesis
    using assms
    by (fastforce simp: rect_points_def ry_pairs sorted_append comp_def)
qed

lemma rect_points_length:
  assumes "2 \<le> w" "2 \<le> h"
  shows "int (length (rect_points w h ox oy)) = 2 * w + 2 * h - 4"
  using assms by (simp add: rect_points_def length_pairs)


lemma Region_Mat_rect:
  "Region_Mat m False =
     Inr \<lparr>bound_min = RPoint (p_x m) (p_y m),
          bound_max = RPoint (p_x m + s_width m) (p_y m + s_height m),
          points = rect_points (s_width m) (s_height m) (p_x m) (p_y m),
          ycoords = buildYMap (rect_points (s_width m) (s_height m) (p_x m) (p_y m))\<rparr>"
  by (simp add: Region_Mat_def Let_def rect_first_eq rect_middle_eq rect_last_eq rect_points_def)

text \<open>
  C3. For a width and a height of at least 2, the constructor in rectangle mode
  (flag false) stores the top row from left to right, then the left and right pixel of
  every inner row, then the bottom row from left to right. These are
  \<open>2w + 2h - 4\<close> points in non-decreasing row order; \<open>bound_min\<close> is the offset and
  \<open>bound_max\<close> the offset plus \<open>(w, h)\<close>.
\<close>

theorem rectangle_construction:
  assumes "2 \<le> s_width m" and "2 \<le> s_height m"
  shows "\<exists>r. Region_Mat m False = Inr r \<and>
           points r =
             map (\<lambda>k. RPoint (p_x m + k) (p_y m)) [0..s_width m - 1] @
             concat (map (\<lambda>k. [RPoint (p_x m) (p_y m + k),
                                 RPoint (p_x m + s_width m - 1) (p_y m + k)])
                         [1..s_height m - 2]) @
             map (\<lambda>k. RPoint (p_x m + k) (p_y m + s_height m - 1)) [0..s_width m - 1] \<and>
           int (length (points r)) = 2 * s_width m + 2 * s_height m - 4 \<and>
           sorted (map ry (points r)) \<and>
           bound_min r = RPoint (p_x m) (p_y m) \<and>
           bound_max r = RPoint (p_x m + s_width m) (p_y m + s_height m)"
proof -
  let ?pts = "rect_points (s_width m) (s_height m) (p_x m) (p_y m)"
  have "int (length ?pts) = 2 * s_width m + 2 * s_height m - 4"
    using assms by (rule rect_points_length)
  moreover have "sorted (map ry ?pts)"
    using assms(2) by (rule rect_points_sorted)
  ultimately show ?thesis
    by (simp add: Region_Mat_rect) (simp add: rect_points_def)
qed

text \<open>The 5 by 4 rectangle at offset (0, 0): 14 points, bounds (0, 0) and (5, 4).\<close>

theorem rectangle_construction_witness:
  "\<exists>r. Region_Mat \<lparr>s_width = 5, s_height = 4, p_x = 0, p_y = 0, step = 5, data = []\<rparr> False = Inr r \<and>
       points r =
         [RPoint 0 0, RPoint 1 0, RPoint 2 0, RPoint 3 0, RPoint 4 0,
          RPoint 0 1, RPoint 4 1,
          RPoint 0 2, RPoint 4 2,
          RPoint 0 3, RPoint 1 3, RPoint 2 3, RPoint 3 3, RPoint 4 3] \<and>
       length (points r) = 14 \<and>
       sorted (map ry (points r)) \<and>
       bound_min r = RPoint 0 0 \<and> bound_max r = RPoint 5 4"
  using rectangle_construction [of "\<lparr>s_width = 5, s_height = 4, p_x = 0, p_y = 0, step = 5, data = []\<rparr>"]
  by (auto simp: upto_rec1)

section \<open>The example regions\<close>

lemma rect_points_5x4: "rect_points 5 4 ox oy = pts_5x4 ox oy"
  by (simp add: rect_points_def upto_rec1 pts_5x4_def add.commute)

lemma Region_rect_5x4:
  "Region_Mat (rect_5x4_at ox oy) False =
     Inr \<lparr>bound_min = RPoint ox oy, bound_max = RPoint (ox + 5) (oy + 4),
          points = pts_5x4 ox oy, ycoords = buildYMap (pts_5x4 ox oy)\<rparr>"
  by (simp add: Region_Mat_rect rect_5x4_at_def rect_points_5x4)

lemma ycoords_5x4:
  "buildYMap (pts_5x4 ox oy) y =
     (if y = oy then Some 0 else if y = oy + 1 then Some 5 else if y = oy + 2 then Some 7
      else if y = oy + 3 then Some 9 else None)"
  by (simp add: buildYMap_def pts_5x4_def)

section \<open>inBoundary\<close>

text \<open>
  The loop condition \<open>i == p.y()\<close> holds for at most one index, so the loop looks at
  one element at most: \<open>inBoundary\<close> reports \<open>p\<close> exactly when the index stored for
  the row of \<open>p\<close> is the number of that row and the point at that index is \<open>p\<close>.
\<close>

lemma inBoundary_loop_once:
  "inBoundary_loop pts p i \<longleftrightarrow> i < length pts \<and> int i = ry p \<and> pts ! i = p"
  by (subst inBoundary_loop.simps, subst inBoundary_loop.simps) auto

lemma inBoundary_iff:
  "inBoundary r p \<longleftrightarrow>
     (\<exists>i. ycoords r (ry p) = Some i \<and> i < length (points r) \<and> int i = ry p \<and> points r ! i = p)"
  by (auto simp: inBoundary_def inBoundary_loop_once split: option.splits)

lemma inBoundary_5x4_00:
  "inBoundary \<lparr>bound_min = bmin, bound_max = bmax,
          points = pts_5x4 0 0, ycoords = buildYMap (pts_5x4 0 0)\<rparr> q \<longleftrightarrow> q = RPoint 0 0"
  by (auto simp: inBoundary_iff ycoords_5x4 split: if_splits) (simp_all add: pts_5x4_def)

lemma inBoundary_5x4_y1:
  "\<not> inBoundary \<lparr>bound_min = bmin, bound_max = bmax,
          points = pts_5x4 ox 1, ycoords = buildYMap (pts_5x4 ox 1)\<rparr> q"
  by (auto simp: inBoundary_iff ycoords_5x4 split: if_splits)

text \<open>
  C1 says that \<open>inBoundary(p)\<close> is true exactly when \<open>p\<close> is a stored point. The
  code does not do that: for the 5 by 4 rectangle at offset (0, 0) the point (1, 0) is
  stored, in the top row, and \<open>inBoundary\<close> returns false for it. The scan starts at
  index 0 of row 0, finds (0, 0) there, and stops at index 1 because 1 is not the row
  number 0.
\<close>

theorem inBoundary_misses_stored_point:
  "\<exists>r. Region_Mat (rect_5x4_at 0 0) False = Inr r \<and>
       RPoint 1 0 \<in> set (points r) \<and> \<not> inBoundary r (RPoint 1 0)"
  by (simp add: Region_rect_5x4 inBoundary_5x4_00) (simp add: pts_5x4_def)

section \<open>interior\<close>

lemma interior_5x4_00:
  "interior \<lparr>bound_min = RPoint 0 0, bound_max = RPoint 5 4,
          points = pts_5x4 0 0, ycoords = buildYMap (pts_5x4 0 0)\<rparr> (RPoint 2 0)"
  by (simp add: interior_def interior_loop.simps inBoundary_5x4_00 outside_box_def RPoint_plus_def Let_def)

text \<open>
  C2 says that \<open>interior(p)\<close> is true exactly when all four directions hit a boundary
  point before the probes leave the bounding box. The loop of the code ends as soon as
  one direction has hit. For the 5 by 4 rectangle at offset (0, 0) and the point
  (2, 0) of its top row, \<open>interior\<close> returns true after the probe to the left finds
  (0, 0) at distance 2, although no probe upwards ever finds a point: \<open>inBoundary\<close>
  is false at every (2, -i), and no stored point has a negative row.
\<close>

theorem interior_true_on_one_hit:
  "\<exists>r. Region_Mat (rect_5x4_at 0 0) False = Inr r \<and>
       interior r (RPoint 2 0) \<and>
       (\<forall>i. \<not> inBoundary r (RPoint_plus (RPoint 2 0) (RPoint 0 (- i)))) \<and>
       list_all (\<lambda>q. 0 \<le> ry q) (points r)"
  by (simp add: Region_rect_5x4 interior_5x4_00 inBoundary_5x4_00 RPoint_plus_def)
     (simp add: pts_5x4_def)

section \<open>contains\<close>

text \<open>
  The guard of \<open>contains\<close> rejects a point that is below \<open>bound_min\<close> or above
  \<open>bound_max\<close> in the order of the points.
\<close>

lemma contains_guard_rejects:
  "lt p (bound_min r) \<or> lt (bound_max r) p \<Longrightarrow> \<not> contains lt r p"
  by (simp add: contains_def)

text \<open>
  A point that the guard lets pass is judged by \<open>inBoundary\<close> and \<open>interior\<close>, and
  \<open>interior\<close> accepts a point as soon as one probe hits: for the 5 by 4 rectangle at
  offset (0, 0) the points (7, 0) and (0, 10) are accepted, through the probes that
  find (0, 0) at distance 7 to the left and at distance 10 upwards.
\<close>

lemma interior_5x4_00_right:
  "interior \<lparr>bound_min = RPoint 0 0, bound_max = RPoint 5 4,
          points = pts_5x4 0 0, ycoords = buildYMap (pts_5x4 0 0)\<rparr> (RPoint 7 0)"
  by (simp add: interior_def interior_loop.simps inBoundary_5x4_00 outside_box_def RPoint_plus_def Let_def)

lemma interior_5x4_00_below:
  "interior \<lparr>bound_min = RPoint 0 0, bound_max = RPoint 5 4,
          points = pts_5x4 0 0, ycoords = buildYMap (pts_5x4 0 0)\<rparr> (RPoint 0 10)"
  by (simp add: interior_def interior_loop.simps inBoundary_5x4_00 outside_box_def RPoint_plus_def Let_def)

text \<open>
  C5 says that \<open>contains(p)\<close> is false for every point outside the bounding box. The
  5 by 4 rectangle at offset (0, 0) has the bounds (0, 0) and (5, 4), and every stored
  point lies in the columns 0 to 5 and the rows 0 to 4. The point (7, 0) is to the
  right of the box and the point (0, 10) is below it, yet \<open>contains\<close> is true for
  (7, 0) in the row-major order and in the order on both coordinates, and for
  (0, 10) in the column-major order. Whatever the order, each of the two points is
  contained unless the guard itself rejects it. No probe to the right of (7, 0) finds a
  point, so by the rule that every direction has to hit, (7, 0) is not interior.
\<close>

theorem contains_outside_box_fails:
  "\<exists>r. Region_Mat (rect_5x4_at 0 0) False = Inr r \<and>
       bound_min r = RPoint 0 0 \<and> bound_max r = RPoint 5 4 \<and>
       list_all (\<lambda>q. 0 \<le> rx q \<and> rx q \<le> 5 \<and> 0 \<le> ry q \<and> ry q \<le> 4) (points r) \<and>
       contains row_major r (RPoint 7 0) \<and>
       contains both_less r (RPoint 7 0) \<and>
       contains col_major r (RPoint 0 10) \<and>
       (\<forall>lt. contains lt r (RPoint 7 0) =
             (\<not> lt (RPoint 7 0) (bound_min r) \<and> \<not> lt (bound_max r) (RPoint 7 0))) \<and>
       (\<forall>lt. contains lt r (RPoint 0 10) =
             (\<not> lt (RPoint 0 10) (bound_min r) \<and> \<not> lt (bound_max r) (RPoint 0 10))) \<and>
       (\<forall>n. \<not> inBoundary r (RPoint_plus (RPoint 7 0) (RPoint (1 + int n) 0)))"
  by (simp add: Region_rect_5x4 contains_def interior_5x4_00_right interior_5x4_00_below
        inBoundary_5x4_00 row_major_def col_major_def both_less_def RPoint_plus_def)
     (simp add: pts_5x4_def)

section \<open>adjacentTo\<close>

lemma adjacentTo_loop_no_boundary:
  "(\<And>q. \<not> inBoundary r q) \<Longrightarrow> \<not> adjacentTo_loop r other pts"
  by (induction pts) (simp_all add: adjacentPoint_def)

lemma adjacentTo_loop_hit:
  "q \<in> set pts \<Longrightarrow> adjacentPoint r q \<Longrightarrow> adjacentTo_loop r other pts"
  by (induction pts) auto

text \<open>
  C6 says that \<open>a.adjacentTo(b)\<close> is true exactly when a stored point of \<open>a\<close> has a
  4-neighbour among the stored points of \<open>b\<close>. Take the 5 by 4 rectangles at offsets
  (0, 1) and (1, 1): (0, 1) is a point of the first, its right neighbour (1, 1) is a
  point of the second, and the bounding boxes overlap, yet \<open>adjacentTo\<close> returns
  false. \<open>inBoundary\<close> reports no point at all for either region, so the result is
  the same whichever of the two regions the probes of \<open>adjacentPoint\<close> consult.
\<close>

theorem adjacentTo_misses_neighbours:
  "\<exists>a b. Region_Mat (rect_5x4_at 0 1) False = Inr a \<and>
         Region_Mat (rect_5x4_at 1 1) False = Inr b \<and>
         RPoint 0 1 \<in> set (points a) \<and>
         RPoint_plus (RPoint 0 1) (RPoint 1 0) \<in> set (points b) \<and>
         \<not> adjacentTo a b \<and>
         (\<forall>q. \<not> inBoundary a q) \<and> (\<forall>q. \<not> inBoundary b q)"
  by (simp add: Region_rect_5x4 inBoundary_5x4_y1 adjacentTo_def adjacentTo_loop_no_boundary)
     (simp add: pts_5x4_def RPoint_plus_def)

text \<open>
  C7 says that \<open>adjacentTo\<close> is symmetric. For the 5 by 4 rectangles \<open>a\<close> at offset
  (0, 0) and \<open>b\<close> at offset (0, 1), \<open>a.adjacentTo(b)\<close> is true and
  \<open>b.adjacentTo(a)\<close> is false: the probes go to the receiver, \<open>inBoundary\<close> of \<open>a\<close>
  reports (0, 0), a neighbour of the point (1, 0) of \<open>a\<close>, and \<open>inBoundary\<close> of \<open>b\<close>
  reports nothing. The last three facts show that the two calls would still differ,
  the other way round, were the probes sent to the argument: \<open>b\<close> offers nothing to
  find, while the point (0, 1) of \<open>b\<close> has the neighbour (0, 0) that \<open>a\<close> reports.
\<close>

theorem adjacentTo_not_symmetric:
  "\<exists>a b. Region_Mat (rect_5x4_at 0 0) False = Inr a \<and>
         Region_Mat (rect_5x4_at 0 1) False = Inr b \<and>
         adjacentTo a b \<and> \<not> adjacentTo b a \<and>
         (\<forall>q. \<not> inBoundary b q) \<and>
         RPoint 0 1 \<in> set (points b) \<and>
         inBoundary a (RPoint_plus (RPoint 0 1) (RPoint 0 (- 1)))"
proof -
  let ?a = "\<lparr>bound_min = RPoint 0 0, bound_max = RPoint (0 + 5) (0 + 4),
              points = pts_5x4 0 0, ycoords = buildYMap (pts_5x4 0 0)\<rparr>"
  let ?b = "\<lparr>bound_min = RPoint 0 1, bound_max = RPoint (0 + 5) (1 + 4),
              points = pts_5x4 0 1, ycoords = buildYMap (pts_5x4 0 1)\<rparr>"
  have "adjacentPoint ?a (RPoint 1 0)"
    by (simp add: adjacentPoint_def inBoundary_5x4_00 RPoint_plus_def)
  moreover have "RPoint 1 0 \<in> set (pts_5x4 0 0)"
    by (simp add: pts_5x4_def)
  ultimately have "adjacentTo_loop ?a ?b (pts_5x4 0 0)"
    by (rule adjacentTo_loop_hit [rotated])
  then have "adjacentTo ?a ?b"
    by (simp add: adjacentTo_def)
  moreover have "\<not> adjacentTo ?b ?a"
    by (simp add: adjacentTo_def inBoundary_5x4_y1 adjacentTo_loop_no_boundary)
  moreover have "\<forall>q. \<not> inBoundary ?b q"
    by (simp add: inBoundary_5x4_y1)
  moreover have "RPoint 0 1 \<in> set (points ?b)"
    by (simp add: pts_5x4_def)
  moreover have "inBoundary ?a (RPoint_plus (RPoint 0 1) (RPoint 0 (- 1)))"
    by (simp add: inBoundary_5x4_00 RPoint_plus_def)
  ultimately show ?thesis
    using Region_rect_5x4 [of 0 0] Region_rect_5x4 [of 0 1] by blast
qed

section \<open>Mask construction\<close>

lemma mask_rows_3x12: "mask_rows mask_3x12 0 [] = Inr [RPoint 0 1, RPoint 2 1, RPoint 9 1]"
  by (simp add: mask_rows.simps mask_cols.simps edge_point_def ptr_uchar_def at_int_def mask_3x12_def)

lemma mask_rows_2x2_set:
  "mask_rows (mask_2x2 255) 0 [] = Inr [RPoint 0 0, RPoint 1 0, RPoint 0 1, RPoint 1 1]"
  by (simp add: mask_rows.simps mask_cols.simps edge_point_def ptr_uchar_def mask_2x2_def)

text \<open>
  C4 says that mask mode stores exactly the set cells that lie on the border of the
  mask or have an unset neighbour to the left, to the right, above or below. In the 3
  by 12 mask the cell in row 1, column 1 is set and the cell above it is unset, yet
  the point (1, 1) is not stored: the stored points are (0, 1), (2, 1) and (9, 1). For
  the neighbours above and below the code reads \<open>m.at<int>(j, i-1)\<close> and
  \<open>m.at<int>(j, i+1)\<close>, that is four bytes of row \<open>j\<close> taken as one \<open>int\<close>: here
  the bytes 0 to 3 and 8 to 11 of row 1, which hold set cells.
\<close>

theorem mask_mode_skips_vertical_edge:
  "\<exists>r. Region_Mat mask_3x12 True = Inr r \<and>
       points r = [RPoint 0 1, RPoint 2 1, RPoint 9 1] \<and>
       ptr_uchar mask_3x12 1 1 = Inr 255 \<and>
       ptr_uchar mask_3x12 0 1 = Inr 0 \<and>
       RPoint (1 + p_x mask_3x12) (1 + p_y mask_3x12) \<notin> set (points r)"
  by (simp add: Region_Mat_def mask_rows_3x12) (simp add: ptr_uchar_def mask_3x12_def)

text \<open>A mask with no set cell yields no point: no cell passes the first test.\<close>

lemma ptr_uchar_unset:
  assumes "all_unset m" and "0 \<le> i" and "i < s_height m" and "0 \<le> j" and "j < s_width m"
  shows "ptr_uchar m i j = Inr 0"
proof -
  let ?a = "i * int (step m) + j"
  have "i * int (step m) \<le> (s_height m - 1) * int (step m)"
    using assms(3) by (intro mult_right_mono) auto
  then have "?a < s_height m * int (step m)"
    using assms by (simp add: all_unset_def algebra_simps)
  then have lt: "?a < int (length (data m))"
    using assms(1) by (simp add: all_unset_def)
  moreover have ge: "0 \<le> ?a"
    using assms(2,4) by simp
  ultimately have "nat ?a < length (data m)"
    by linarith
  then have "data m ! nat ?a = 0"
    using assms(1) by (simp add: all_unset_def list_all_length)
  with lt ge show ?thesis
    by (simp add: ptr_uchar_def)
qed

lemma mask_cols_unset:
  "all_unset m \<Longrightarrow> 0 \<le> i \<Longrightarrow> i < s_height m \<Longrightarrow> 0 \<le> j \<Longrightarrow> mask_cols m i j pts = Inr pts"
proof (induction m i j pts rule: mask_cols.induct)
  case (1 m i j pts)
  show ?case
  proof (cases "j < s_width m")
    case True
    with 1 have e: "edge_point m i j = Inr False"
      by (simp add: edge_point_def ptr_uchar_unset)
    have "mask_cols m i (j + 1) pts = Inr pts"
      using "1.IH" [OF True e] "1.prems" by simp
    with True e show ?thesis
      by (subst mask_cols.simps) simp
  next
    case False
    then show ?thesis by (subst mask_cols.simps) simp
  qed
qed

lemma mask_rows_unset:
  "all_unset m \<Longrightarrow> 0 \<le> i \<Longrightarrow> mask_rows m i pts = Inr pts"
proof (induction m i pts rule: mask_rows.induct)
  case (1 m i pts)
  show ?case
  proof (cases "i < s_height m")
    case True
    with 1 have c: "mask_cols m i 0 pts = Inr pts"
      by (simp add: mask_cols_unset)
    have "mask_rows m (i + 1) pts = Inr pts"
      using "1.IH" [OF True c] "1.prems" by simp
    with True c show ?thesis
      by (subst mask_rows.simps) simp
  next
    case False
    then show ?thesis by (subst mask_rows.simps) simp
  qed
qed

text \<open>
  C10. Mask mode reads the first and the last collected point whatever was collected.
  When the loops end with the points \<open>pts\<close>, the constructor fails on the empty
  sequence exactly when \<open>pts\<close> is empty; otherwise it yields the region with these
  points, \<open>bound_min\<close> the first and \<open>bound_max\<close> the last of them. A mask none of
  whose cells is set collects nothing, so the constructor reads the first element of
  an empty sequence.
\<close>

theorem mask_mode_first_last:
  "(\<forall>pts. mask_rows m 0 [] = Inr pts \<longrightarrow>
      (Region_Mat m True = Inl EmptySequence \<longleftrightarrow> pts = []) \<and>
      (pts \<noteq> [] \<longrightarrow>
         (\<exists>r. Region_Mat m True = Inr r \<and> points r = pts \<and>
              bound_min r = hd pts \<and> bound_max r = last pts))) \<and>
   (all_unset m \<longrightarrow> mask_rows m 0 [] = Inr [] \<and> Region_Mat m True = Inl EmptySequence)"
  by (auto simp: Region_Mat_def mask_rows_unset)

text \<open>
  The 2 by 2 mask with no cell set fails on the empty sequence; the 2 by 2 mask with
  every cell set gives the bounds (0, 0) and (1, 1).
\<close>

theorem mask_mode_first_last_witness:
  "all_unset (mask_2x2 0) \<and>
   mask_rows (mask_2x2 0) 0 [] = Inr [] \<and>
   Region_Mat (mask_2x2 0) True = Inl EmptySequence \<and>
   mask_rows (mask_2x2 255) 0 [] = Inr [RPoint 0 0, RPoint 1 0, RPoint 0 1, RPoint 1 1] \<and>
   (\<exists>r. Region_Mat (mask_2x2 255) True = Inr r \<and>
        bound_min r = RPoint 0 0 \<and> bound_max r = RPoint 1 1)"
proof -
  have u: "all_unset (mask_2x2 0)"
    by (simp add: all_unset_def mask_2x2_def)
  show ?thesis
    using u mask_mode_first_last [of "mask_2x2 0"] mask_mode_first_last [of "mask_2x2 255"]
    by (auto simp: mask_rows_2x2_set)
qed

section \<open>Failure of toMask\<close>

text \<open>
  A round of the inner loop that succeeds leaves the length of \<open>xmap\<close> as it was and
  had its column inside the array. The array has \<open>bound_max.x - bound_min.x\<close>
  elements and the columns run up to \<open>bound_max.x\<close>, so with a left bound that is not
  negative the first row cannot be completed: \<open>toMask\<close> fails for every such region
  whose row range is not empty.
\<close>

lemma toMask_cell_Inr:
  "toMask_cell lt r i j st = Inr st' \<Longrightarrow>
   length (fst st') = length (fst st) \<and> j < int (length (fst st))"
  by (cases st) (auto simp: toMask_cell_def Let_def split: if_splits sum.splits)

lemma toMask_cols_fails:
  "j \<le> rx (bound_max r) \<Longrightarrow> int (length (fst st)) \<le> rx (bound_max r) \<Longrightarrow>
   \<exists>e. toMask_cols lt r i j st = Inl e"
proof (induction lt r i j st rule: toMask_cols.induct)
  case (1 lt r i j st)
  show ?case
  proof (cases "toMask_cell lt r i j st")
    case (Inl e)
    with "1.prems" show ?thesis
      by (subst toMask_cols.simps) simp
  next
    case (Inr st')
    from toMask_cell_Inr [OF Inr]
    have len: "length (fst st') = length (fst st)" and j: "j < int (length (fst st))"
      by simp_all
    have "\<exists>e. toMask_cols lt r i (j + 1) st' = Inl e"
      using "1.IH" [OF "1.prems"(1) Inr] "1.prems" len j by simp
    with "1.prems" Inr show ?thesis
      by (subst toMask_cols.simps) simp
  qed
qed

lemma toMask_fails:
  assumes "0 \<le> rx (bound_min r)" and "ry (bound_min r) \<le> ry (bound_max r)"
  shows "\<exists>e. toMask lt xmap0 r = Inl e"
proof (cases "Mat_zeros (ry (bound_max r) - 1) (rx (bound_max r) - 1)")
  case (Inl e)
  then show ?thesis by (simp add: toMask_def)
next
  case (Inr m)
  let ?n = "rx (bound_max r) - rx (bound_min r)"
  show ?thesis
  proof (cases "?n < 0")
    case True
    with Inr show ?thesis by (simp add: toMask_def)
  next
    case False
    let ?st = "(map xmap0 [0..<nat ?n], m)"
    have "\<exists>e. toMask_cols lt r (ry (bound_min r)) (rx (bound_min r)) ?st = Inl e"
      using False assms(1) by (intro toMask_cols_fails) auto
    then have "\<exists>e. toMask_rows lt r (ry (bound_min r)) ?st = Inl e"
      using assms(2) by (subst toMask_rows.simps) auto
    with Inr False show ?thesis
      by (auto simp: toMask_def Let_def)
  qed
qed

lemma inBoundary_2x2:
  "inBoundary \<lparr>bound_min = bmin, bound_max = bmax,
      points = [RPoint 0 0, RPoint 1 0, RPoint 0 1, RPoint 1 1],
      ycoords = buildYMap [RPoint 0 0, RPoint 1 0, RPoint 0 1, RPoint 1 1]\<rparr> (RPoint 0 0)"
  by (simp add: inBoundary_iff buildYMap_def)

lemma bit0_set: "(c OR 1) AND 3 \<noteq> (0 :: uchar)"
proof
  assume "(c OR 1) AND 3 = 0"
  then have "bit ((c OR 1) AND 3) 0 = bit (0 :: uchar) 0" by simp
  then show False by (simp add: bit_simps)
qed

text \<open>
  C8 says that building a region from a mask and calling \<open>toMask\<close> yields a mask that
  covers the bounding box and has every stored boundary point set. For the 2 by 2 mask
  with every cell set the region has the four cells as points and the bounds (0, 0)
  and (1, 1); \<open>toMask\<close> allocates a matrix of \<open>bound_max.y - 1 = 0\<close> rows and
  \<open>bound_max.x - 1 = 0\<close> columns, and the write for the first boundary point (0, 0)
  already falls outside it, whatever the order of the points and the first contents
  of \<open>xmap\<close>.
\<close>

theorem toMask_round_trip_fails:
  "\<exists>r. Region_Mat (mask_2x2 255) True = Inr r \<and>
       points r = [RPoint 0 0, RPoint 1 0, RPoint 0 1, RPoint 1 1] \<and>
       bound_min r = RPoint 0 0 \<and> bound_max r = RPoint 1 1 \<and>
       Mat_zeros (ry (bound_max r) - 1) (rx (bound_max r) - 1) =
         Inr \<lparr>s_width = 0, s_height = 0, p_x = 0, p_y = 0, step = 0, data = []\<rparr> \<and>
       (\<forall>lt xmap0. toMask lt xmap0 r = Inl MatOutOfBounds)"
  by (simp add: Region_Mat_def mask_rows_2x2_set Mat_zeros_def toMask_def toMask_rows.simps
      toMask_cols.simps toMask_cell_def inBoundary_2x2 bit0_set at_uchar_set_def)

text \<open>
  C9 says that every access to the flag array of \<open>toMask\<close> stays within its bounds
  because it is indexed relative to \<open>bound_min.x\<close>. The code indexes \<open>xmap\<close> with the
  absolute column \<open>j\<close>, which runs up to \<open>bound_max.x\<close> inclusive. For the 5 by 4
  rectangle at offset (0, 0) the array has 5 elements; with an array that starts as
  zeros the first row reaches column 5 and reads \<open>xmap[5]\<close>, and whatever the array
  first holds \<open>toMask\<close> ends in an access out of bounds.
\<close>

theorem toMask_xmap_out_of_bounds:
  "\<exists>r. Region_Mat (rect_5x4_at 0 0) False = Inr r \<and>
       points r \<noteq> [] \<and>
       rx (bound_max r) - rx (bound_min r) = 5 \<and>
       (\<forall>lt. toMask lt (\<lambda>k. 0) r = Inl (XmapOutOfBounds 5)) \<and>
       (\<forall>lt xmap0. \<exists>e. toMask lt xmap0 r = Inl e)"
proof -
  let ?r = "\<lparr>bound_min = RPoint 0 0, bound_max = RPoint (0 + 5) (0 + 4),
              points = pts_5x4 0 0, ycoords = buildYMap (pts_5x4 0 0)\<rparr>"
  have "toMask lt (\<lambda>k. 0) ?r = Inl (XmapOutOfBounds 5)" for lt
    by (simp add: Mat_zeros_def toMask_def toMask_rows.simps
      toMask_cols.simps toMask_cell_def inBoundary_5x4_00 at_uchar_set_def)
  moreover have "\<exists>e. toMask lt xmap0 ?r = Inl e" for lt xmap0
    by (rule toMask_fails) simp_all
  moreover have "points ?r \<noteq> []"
    by (simp add: pts_5x4_def)
  ultimately show ?thesis
    using Region_rect_5x4 [of 0 0] by auto
qed

end
